theory Spec2Isabelle
  imports Main "HOL-Library.Sublist"
begin

section \<open>The Swan editor extension: \<open>packages/vscode-plugin/src/extension.ts\<close>\<close>

text \<open>
  The extension has two entry points, \<open>activate(context)\<close> and \<open>deactivate()\<close>, three
  command closures, one configuration listener and one promise continuation. All of them
  only call capabilities of the editor host (\<open>vscode.*\<close>, \<open>console\<close>, \<open>context\<close>), so the
  embedding passes the host along explicitly: every capability appends what it was asked
  to do to a field of the \<open>host\<close> record, and objects the host hands out (terminals,
  status-bar items) live in lists and are referred to by their index, which stands for
  the object's identity.

  A JavaScript string is modelled as a \<open>string\<close>; the only operations the source applies
  to strings are literals, concatenation in template literals, the truthiness test and
  \<open>===\<close>. A character outside ASCII is written as its UTF-8 bytes.
\<close>

subsection \<open>Data\<close>

text \<open>The three closures handed to \<open>registerCommand\<close>, in the order of the source.\<close>

datatype handler = HelloWorld | OpenDocs | CreateProject

text \<open>The closure handed to \<open>onDidChangeConfiguration\<close>.\<close>

datatype listener = LogLevelListener

text \<open>\<open>vscode.StatusBarAlignment\<close>.\<close>

datatype statusBarAlignment = Left | Right

text \<open>
  A status-bar item as \<open>createStatusBarItem\<close> returns it: alignment and priority are
  fixed by the call, \<open>text\<close> starts empty, \<open>tooltip\<close> and \<open>command\<close> start undefined
  (\<open>None\<close>), and the item is hidden until \<open>show()\<close>.
\<close>

record statusBarItem =
  itemAlignment :: statusBarAlignment
  itemPriority :: int
  itemText :: string
  itemTooltip :: "string option"
  itemCommand :: "string option"
  itemVisible :: bool

text \<open>A terminal: its name, the texts sent to it (oldest first), whether it was revealed.\<close>

record terminal =
  terminalName :: string
  sentTexts :: "string list"
  terminalShown :: bool

text \<open>The options object of \<open>showInputBox\<close>.\<close>

record inputBoxOptions =
  prompt :: string
  placeHolder :: string

text \<open>\<open>vscode.Uri\<close>, as far as the source uses it: the result of \<open>Uri.parse\<close> on a string.\<close>

datatype uri = Uri string

text \<open>
  A \<open>Disposable\<close>: the handle of a command registration (identified by the command id),
  a status-bar item (by its index), or an event subscription (by the listener's index).
\<close>

datatype disposable =
  CommandRegistration string
| StatusBarHandle nat
| ListenerSubscription nat

text \<open>
  The host. \<open>console\<close> holds the lines of \<open>console.log\<close>; \<open>informationMessages\<close> the calls
  of \<open>showInformationMessage\<close> (message, offered items); \<open>externalUris\<close> the calls of
  \<open>openExternal\<close>; \<open>inputBoxes\<close> the calls of \<open>showInputBox\<close>; \<open>commands\<close> is the command
  registry; \<open>configuration\<close> maps a section and a key to the setting's value
  (\<open>None\<close> is \<open>undefined\<close>).
\<close>

record host =
  console :: "string list"
  informationMessages :: "(string \<times> string list) list"
  externalUris :: "uri list"
  inputBoxes :: "inputBoxOptions list"
  terminals :: "terminal list"
  statusBarItems :: "statusBarItem list"
  commands :: "string \<rightharpoonup> handler"
  configurationListeners :: "listener list"
  configuration :: "string \<Rightarrow> string \<Rightarrow> string option"

text \<open>
  \<open>vscode.ExtensionContext\<close>, as far as the source uses it: the disposal list and the
  persistent key-value store \<open>globalState\<close>. The source reads the store at type boolean
  (the default \<open>false\<close> fixes the type parameter of \<open>get\<close>).
\<close>

record extensionContext =
  subscriptions :: "disposable list"
  globalState :: "string \<rightharpoonup> bool"

subsection \<open>Host capabilities\<close>

text \<open>
  The editor is not part of the repository. Each capability is modelled by what the
  extension asks of it: the call is recorded in the host, an object handed back is a new
  one, and no capability fails (the source handles no failure of the host).
  \<open>registerCommand\<close> binds the id to the closure in the command registry, and
  \<open>executeCommand\<close> below runs what the registry holds.
\<close>

definition console_log :: "string \<Rightarrow> host \<Rightarrow> host" where
  "console_log line h = h\<lparr>console := console h @ [line]\<rparr>"

definition showInformationMessage :: "string \<Rightarrow> string list \<Rightarrow> host \<Rightarrow> host" where
  "showInformationMessage message items h =
     h\<lparr>informationMessages := informationMessages h @ [(message, items)]\<rparr>"

definition Uri_parse :: "string \<Rightarrow> uri" where
  "Uri_parse s = Uri s"

definition openExternal :: "uri \<Rightarrow> host \<Rightarrow> host" where
  "openExternal u h = h\<lparr>externalUris := externalUris h @ [u]\<rparr>"

text \<open>
  \<open>showInputBox\<close> opens the box and returns a promise; the user's answer arrives later,
  as the argument of the code after the \<open>await\<close>.
\<close>

definition showInputBox :: "inputBoxOptions \<Rightarrow> host \<Rightarrow> host" where
  "showInputBox opts h = h\<lparr>inputBoxes := inputBoxes h @ [opts]\<rparr>"

definition createTerminal :: "string \<Rightarrow> host \<Rightarrow> nat \<times> host" where
  "createTerminal n h =
     (length (terminals h),
      h\<lparr>terminals := terminals h @
         [\<lparr>terminalName = n, sentTexts = [], terminalShown = False\<rparr>]\<rparr>)"

definition terminal_sendText :: "nat \<Rightarrow> string \<Rightarrow> host \<Rightarrow> host" where
  "terminal_sendText t s h =
     h\<lparr>terminals := (terminals h)
        [t := (terminals h ! t)\<lparr>sentTexts := sentTexts (terminals h ! t) @ [s]\<rparr>]\<rparr>"

definition terminal_show :: "nat \<Rightarrow> host \<Rightarrow> host" where
  "terminal_show t h =
     h\<lparr>terminals := (terminals h)[t := (terminals h ! t)\<lparr>terminalShown := True\<rparr>]\<rparr>"

definition createStatusBarItem :: "statusBarAlignment \<Rightarrow> int \<Rightarrow> host \<Rightarrow> nat \<times> host" where
  "createStatusBarItem a p h =
     (length (statusBarItems h),
      h\<lparr>statusBarItems := statusBarItems h @
         [\<lparr>itemAlignment = a, itemPriority = p, itemText = [], itemTooltip = None,
           itemCommand = None, itemVisible = False\<rparr>]\<rparr>)"

definition set_text :: "nat \<Rightarrow> string \<Rightarrow> host \<Rightarrow> host" where
  "set_text i s h =
     h\<lparr>statusBarItems := (statusBarItems h)[i := (statusBarItems h ! i)\<lparr>itemText := s\<rparr>]\<rparr>"

definition set_tooltip :: "nat \<Rightarrow> string \<Rightarrow> host \<Rightarrow> host" where
  "set_tooltip i s h =
     h\<lparr>statusBarItems := (statusBarItems h)
        [i := (statusBarItems h ! i)\<lparr>itemTooltip := Some s\<rparr>]\<rparr>"

definition set_command :: "nat \<Rightarrow> string \<Rightarrow> host \<Rightarrow> host" where
  "set_command i s h =
     h\<lparr>statusBarItems := (statusBarItems h)
        [i := (statusBarItems h ! i)\<lparr>itemCommand := Some s\<rparr>]\<rparr>"

definition statusBarItem_show :: "nat \<Rightarrow> host \<Rightarrow> host" where
  "statusBarItem_show i h =
     h\<lparr>statusBarItems := (statusBarItems h)
        [i := (statusBarItems h ! i)\<lparr>itemVisible := True\<rparr>]\<rparr>"

definition registerCommand :: "string \<Rightarrow> handler \<Rightarrow> host \<Rightarrow> disposable \<times> host" where
  "registerCommand cid f h = (CommandRegistration cid, h\<lparr>commands := (commands h)(cid \<mapsto> f)\<rparr>)"

definition onDidChangeConfiguration :: "listener \<Rightarrow> host \<Rightarrow> disposable \<times> host" where
  "onDidChangeConfiguration l h =
     (ListenerSubscription (length (configurationListeners h)),
      h\<lparr>configurationListeners := configurationListeners h @ [l]\<rparr>)"

text \<open>\<open>getConfiguration(section).get(key)\<close>.\<close>

definition getConfiguration_get :: "string \<Rightarrow> string \<Rightarrow> host \<Rightarrow> string option" where
  "getConfiguration_get section' k h = configuration h section' k"

text \<open>\<open>globalState.get(key, defaultValue)\<close> and \<open>globalState.update(key, value)\<close>.\<close>

definition globalState_get :: "extensionContext \<Rightarrow> string \<Rightarrow> bool \<Rightarrow> bool" where
  "globalState_get c k d = (case globalState c k of None \<Rightarrow> d | Some v \<Rightarrow> v)"

definition globalState_update_key :: "string \<Rightarrow> bool \<Rightarrow> extensionContext \<Rightarrow> extensionContext" where
  "globalState_update_key k v c = c\<lparr>globalState := (globalState c)(k \<mapsto> v)\<rparr>"

text \<open>\<open>context.subscriptions.push(...)\<close>.\<close>

definition subscriptions_push :: "disposable list \<Rightarrow> extensionContext \<Rightarrow> extensionContext" where
  "subscriptions_push ds c = c\<lparr>subscriptions := subscriptions c @ ds\<rparr>"

text \<open>
  A template literal \<open>`${v}`\<close> on a value that is a string or undefined: the string
  itself, or the text \<open>undefined\<close>.
\<close>

definition template :: "string option \<Rightarrow> string" where
  "template v = (case v of None \<Rightarrow> ''undefined'' | Some s \<Rightarrow> s)"

subsection \<open>The command closures\<close>

text \<open>The closure registered as \<open>swan.helloWorld\<close>.\<close>

definition helloWorld_handler :: "host \<Rightarrow> host" where
  "helloWorld_handler h = showInformationMessage ''Hello World from Swan!'' [] h"

text \<open>The closure registered as \<open>swan.openDocs\<close>.\<close>

definition openDocs_handler :: "host \<Rightarrow> host" where
  "openDocs_handler h = openExternal (Uri_parse ''https://your-swan-docs-url.com'') h"

text \<open>
  The closure registered as \<open>swan.createProject\<close> is asynchronous. Up to the \<open>await\<close> it
  opens the input box; the rest runs when the user has answered, with the answer
  (\<open>None\<close> for \<open>undefined\<close>, the value of a cancelled box). \<open>if (projectName)\<close> is
  JavaScript truthiness: undefined and the empty string are false.
\<close>

definition createProject_prompt :: "host \<Rightarrow> host" where
  "createProject_prompt h =
     showInputBox \<lparr>prompt = ''Enter project name'', placeHolder = ''my-swan-project''\<rparr> h"

definition createProject_resume :: "string option \<Rightarrow> host \<Rightarrow> host" where
  "createProject_resume projectName h =
     (case projectName of
        None \<Rightarrow> h
      | Some n \<Rightarrow>
          if n = [] then h
          else
            (let (terminal, h1) = createTerminal ''Swan Project Setup'' h;
                 h2 = terminal_sendText terminal (''pnpm create swan-app '' @ n) h1;
                 h3 = terminal_show terminal h2
             in showInformationMessage (''Creating Swan project: '' @ n) [] h3))"

text \<open>One whole invocation: the prompt, then the answer.\<close>

definition createProject_handler :: "string option \<Rightarrow> host \<Rightarrow> host" where
  "createProject_handler answer h = createProject_resume answer (createProject_prompt h)"

subsection \<open>The configuration listener\<close>

text \<open>
  A configuration-change event, as far as the source uses it: an object with the method
  \<open>affectsConfiguration(section)\<close>.
\<close>

record configurationChangeEvent =
  affectsConfiguration :: "string \<Rightarrow> bool"

text \<open>The closure handed to \<open>onDidChangeConfiguration\<close>.\<close>

definition logLevel_listener :: "configurationChangeEvent \<Rightarrow> host \<Rightarrow> host" where
  "logLevel_listener event h =
     (if affectsConfiguration event ''swan'' then
        (let logLevel = getConfiguration_get ''swan'' ''logLevel'' h
         in console_log (''Swan log level changed to: '' @ template logLevel) h)
      else h)"

subsection \<open>Running a registered command\<close>

text \<open>
  What the host does when a registered closure is called. For the asynchronous
  \<open>swan.createProject\<close> closure the call runs it up to its \<open>await\<close>.
\<close>

definition invoke :: "handler \<Rightarrow> host \<Rightarrow> host" where
  "invoke f h =
     (case f of
        HelloWorld \<Rightarrow> helloWorld_handler h
      | OpenDocs \<Rightarrow> openDocs_handler h
      | CreateProject \<Rightarrow> createProject_prompt h)"

text \<open>
  \<open>vscode.commands.executeCommand(id)\<close>: the closure registered under the id runs; for an
  id that is not registered the returned promise is rejected and nothing runs.
\<close>

definition executeCommand :: "string \<Rightarrow> host \<Rightarrow> host" where
  "executeCommand cid h = (case commands h cid of None \<Rightarrow> h | Some f \<Rightarrow> invoke f h)"

subsection \<open>Activation\<close>

text \<open>
  The welcome message ends in the swan emoji U+1F9A2, here its four UTF-8 bytes.
\<close>

definition welcomeMessage :: string where
  "welcomeMessage =
     ''Welcome to Swan VS Code Extension! '' @ [CHR 0xF0, CHR 0x9F, CHR 0xA6, CHR 0xA2]"

text \<open>
  The continuation attached with \<open>.then\<close> to the welcome message: it runs when the user
  has picked an item or dismissed the message (\<open>None\<close>).
\<close>

definition welcome_then :: "string option \<Rightarrow> host \<Rightarrow> host" where
  "welcome_then selection h =
     (if selection = Some ''Open Docs'' then executeCommand ''swan.openDocs'' h
      else if selection = Some ''Create Project'' then executeCommand ''swan.createProject'' h
      else h)"

definition activate :: "extensionContext \<Rightarrow> host \<Rightarrow> extensionContext \<times> host" where
  "activate context h0 =
     (let h1 = console_log ''Swan VS Code Extension is now active!'' h0;
          (helloWorldCommand, h2) = registerCommand ''swan.helloWorld'' HelloWorld h1;
          (openDocsCommand, h3) = registerCommand ''swan.openDocs'' OpenDocs h2;
          (createProjectCommand, h4) = registerCommand ''swan.createProject'' CreateProject h3;
          (statusBarItem, h5) = createStatusBarItem Right 100 h4;
          h6 = set_text statusBarItem ''$(rocket) Swan'' h5;
          h7 = set_tooltip statusBarItem ''Swan Development Tools'' h6;
          h8 = set_command statusBarItem ''swan.helloWorld'' h7;
          h9 = statusBarItem_show statusBarItem h8;
          context1 = subscriptions_push
            [helloWorldCommand, openDocsCommand, createProjectCommand,
             StatusBarHandle statusBarItem] context;
          (_, h10) = onDidChangeConfiguration LogLevelListener h9;
          hasShownWelcome = globalState_get context1 ''swan.hasShownWelcome'' False
      in if \<not> hasShownWelcome then
           (let h11 = showInformationMessage welcomeMessage
                        [''Open Docs'', ''Create Project''] h10
            in (globalState_update_key ''swan.hasShownWelcome'' True context1, h11))
         else (context1, h10))"

subsection \<open>Deactivation\<close>

definition deactivate :: "host \<Rightarrow> host" where
  "deactivate h = console_log ''Swan VS Code Extension is now deactivated'' h"

subsection \<open>The life of one installation\<close>

text \<open>
  Everything that can make code of the extension run. The host activates the extension
  with a context whose disposal list it chooses and whose store is the installation's; it
  deactivates it; a command is invoked by its id (from the palette, the status-bar item or
  \<open>executeCommand\<close>); the user answers an input box, or the welcome message; the
  configuration changes, and the host calls every registered listener. The events may come
  in any order and any number of times, so a fact about all event lists covers every
  interleaving the host can produce.
\<close>

datatype event =
  Activate "disposable list"
| Deactivate
| CommandInvoked string
| InputBoxAnswered "string option"
| WelcomeAnswered "string option"
| ConfigurationChanged configurationChangeEvent

definition deliver :: "listener \<Rightarrow> configurationChangeEvent \<Rightarrow> host \<Rightarrow> host" where
  "deliver l ev h = (case l of LogLevelListener \<Rightarrow> logLevel_listener ev h)"

fun step :: "event \<Rightarrow> extensionContext \<times> host \<Rightarrow> extensionContext \<times> host" where
  "step (Activate subs) (c, h) = activate (c\<lparr>subscriptions := subs\<rparr>) h"
| "step Deactivate (c, h) = (c, deactivate h)"
| "step (CommandInvoked cid) (c, h) = (c, executeCommand cid h)"
| "step (InputBoxAnswered answer) (c, h) = (c, createProject_resume answer h)"
| "step (WelcomeAnswered selection) (c, h) = (c, welcome_then selection h)"
| "step (ConfigurationChanged ev) (c, h) =
     (c, fold (\<lambda>l. deliver l ev) (configurationListeners h) h)"

fun run :: "event list \<Rightarrow> extensionContext \<times> host \<Rightarrow> extensionContext \<times> host" where
  "run [] w = w"
| "run (e # es) w = run es (step e w)"

text \<open>The welcome notification, and how often a host has shown it.\<close>

definition welcomeNotification :: "string \<times> string list" where
  "welcomeNotification = (welcomeMessage, [''Open Docs'', ''Create Project''])"

definition welcomesShown :: "host \<Rightarrow> nat" where
  "welcomesShown h = count_list (informationMessages h) welcomeNotification"

subsection \<open>Sample inputs\<close>

text \<open>A host on which nothing has happened yet, and the context of a fresh installation.\<close>

definition emptyHost :: host where
  "emptyHost =
     \<lparr>console = [], informationMessages = [], externalUris = [], inputBoxes = [],
      terminals = [], statusBarItems = [], commands = Map.empty,
      configurationListeners = [], configuration = (\<lambda>_ _. None)\<rparr>"

definition freshContext :: extensionContext where
  "freshContext = \<lparr>subscriptions = [], globalState = Map.empty\<rparr>"

section \<open>Properties\<close>

subsection \<open>Auxiliary facts\<close>

lemmas host_defs = console_log_def showInformationMessage_def registerCommand_def
  createStatusBarItem_def set_text_def set_tooltip_def set_command_def statusBarItem_show_def
  onDidChangeConfiguration_def

lemmas context_defs = subscriptions_push_def globalState_get_def globalState_update_key_def

text \<open>The result of \<open>activate\<close>, field by field.\<close>

lemma activate_closed:
  "activate c h =
    (c\<lparr>subscriptions := subscriptions c @
         [CommandRegistration ''swan.helloWorld'', CommandRegistration ''swan.openDocs'',
          CommandRegistration ''swan.createProject'',
          StatusBarHandle (length (statusBarItems h))],
       globalState := (if globalState c ''swan.hasShownWelcome'' = Some True then globalState c
          else (globalState c)(''swan.hasShownWelcome'' \<mapsto> True))\<rparr>,
     h\<lparr>console := console h @ [''Swan VS Code Extension is now active!''],
       commands := (commands h)(''swan.helloWorld'' \<mapsto> HelloWorld,
          ''swan.openDocs'' \<mapsto> OpenDocs, ''swan.createProject'' \<mapsto> CreateProject),
       statusBarItems := statusBarItems h @
         [\<lparr>itemAlignment = Right, itemPriority = 100, itemText = ''$(rocket) Swan'',
           itemTooltip = Some ''Swan Development Tools'',
           itemCommand = Some ''swan.helloWorld'', itemVisible = True\<rparr>],
       configurationListeners := configurationListeners h @ [LogLevelListener],
       informationMessages := informationMessages h @
         (if globalState c ''swan.hasShownWelcome'' = Some True then []
          else [welcomeNotification])\<rparr>)"
  unfolding activate_def host_defs context_defs Let_def welcomeNotification_def
  by (cases "globalState c ''swan.hasShownWelcome''") simp_all

lemma activate_globalState_flag:
  "globalState (fst (activate c h)) ''swan.hasShownWelcome'' = Some True"
  by (simp add: activate_closed)

lemma activate_informationMessages:
  "informationMessages (snd (activate c h)) =
     informationMessages h @
       (if globalState c ''swan.hasShownWelcome'' = Some True then []
        else [welcomeNotification])"
  by (simp add: activate_closed)

lemma activate_welcomesShown:
  "welcomesShown (snd (activate c h)) =
     welcomesShown h + (if globalState c ''swan.hasShownWelcome'' = Some True then 0 else 1)"
  by (simp add: activate_closed welcomesShown_def)

text \<open>The second half of the create-project closure, by the answer.\<close>

lemma createProject_resume_named:
  "n \<noteq> [] \<Longrightarrow> createProject_resume (Some n) h =
     h\<lparr>terminals := terminals h @
          [\<lparr>terminalName = ''Swan Project Setup'',
            sentTexts = [''pnpm create swan-app '' @ n], terminalShown = True\<rparr>],
       informationMessages := informationMessages h @ [(''Creating Swan project: '' @ n, [])]\<rparr>"
  by (simp add: createProject_resume_def createTerminal_def terminal_sendText_def
      terminal_show_def showInformationMessage_def del: append.simps)

lemma createProject_resume_nothing:
  "createProject_resume None h = h" "createProject_resume (Some []) h = h"
  by (simp_all add: createProject_resume_def)

lemma createProject_prompt_fields:
  "createProject_prompt h =
     h\<lparr>inputBoxes := inputBoxes h @
        [\<lparr>prompt = ''Enter project name'', placeHolder = ''my-swan-project''\<rparr>]\<rparr>"
  by (simp add: createProject_prompt_def showInputBox_def)

text \<open>
  What the steps other than activation leave alone: the status-bar items, and the number
  of welcome notifications shown.
\<close>

lemma invoke_fields:
  "statusBarItems (invoke f h) = statusBarItems h"
  "welcomesShown (invoke f h) = welcomesShown h"
  by (cases f; simp add: invoke_def helloWorld_handler_def openDocs_handler_def
      createProject_prompt_def showInformationMessage_def openExternal_def showInputBox_def
      welcomesShown_def welcomeNotification_def)+

lemma executeCommand_fields:
  "statusBarItems (executeCommand cid h) = statusBarItems h"
  "welcomesShown (executeCommand cid h) = welcomesShown h"
  by (simp_all add: executeCommand_def invoke_fields split: option.split)

lemma welcome_then_fields:
  "statusBarItems (welcome_then s h) = statusBarItems h"
  "welcomesShown (welcome_then s h) = welcomesShown h"
  by (simp_all add: welcome_then_def executeCommand_fields)

lemma createProject_resume_fields:
  "statusBarItems (createProject_resume a h) = statusBarItems h"
  "welcomesShown (createProject_resume a h) = welcomesShown h"
  by (simp_all add: createProject_resume_def createTerminal_def terminal_sendText_def
      terminal_show_def showInformationMessage_def welcomesShown_def welcomeNotification_def
      split: option.split)

lemma deactivate_fields:
  "statusBarItems (deactivate h) = statusBarItems h"
  "welcomesShown (deactivate h) = welcomesShown h"
  by (simp_all add: deactivate_def console_log_def welcomesShown_def)

lemma deliver_fields:
  "statusBarItems (deliver l ev h) = statusBarItems h"
  "welcomesShown (deliver l ev h) = welcomesShown h"
  by (cases l; simp add: deliver_def logLevel_listener_def console_log_def welcomesShown_def)+

lemma fold_deliver_fields:
  "statusBarItems (fold (\<lambda>l. deliver l ev) ls h) = statusBarItems h"
  "welcomesShown (fold (\<lambda>l. deliver l ev) ls h) = welcomesShown h"
  by (induction ls arbitrary: h; simp add: deliver_fields)+

lemmas step_fields = executeCommand_fields welcome_then_fields createProject_resume_fields
  deactivate_fields fold_deliver_fields

text \<open>The persistent store along one step and along a run.\<close>

lemma step_globalState:
  "globalState (fst (step e w)) = globalState (fst w) \<or>
   globalState (fst (step e w)) = (globalState (fst w))(''swan.hasShownWelcome'' \<mapsto> True)"
  by (cases w; cases e; simp add: activate_closed)

lemma run_globalState:
  "globalState (fst (run es w)) = globalState (fst w) \<or>
   globalState (fst (run es w)) = (globalState (fst w))(''swan.hasShownWelcome'' \<mapsto> True)"
proof (induction es arbitrary: w)
  case Nil
  show ?case by simp
next
  case (Cons e es)
  from Cons.IH [of "step e w"] step_globalState [of e w] show ?case
    by auto
qed

lemma run_flag_stays:
  assumes "globalState (fst w) ''swan.hasShownWelcome'' = Some True"
  shows "globalState (fst (run es w)) ''swan.hasShownWelcome'' = Some True"
  using run_globalState [of es w] assms by auto

text \<open>Once the flag is set, no step shows the welcome notification.\<close>

lemma step_welcomesShown:
  assumes "globalState (fst w) ''swan.hasShownWelcome'' = Some True"
  shows "welcomesShown (snd (step e w)) = welcomesShown (snd w)"
  using assms by (cases w; cases e; simp add: step_fields activate_welcomesShown)

lemma run_welcomesShown:
  assumes "globalState (fst w) ''swan.hasShownWelcome'' = Some True"
  shows "welcomesShown (snd (run es w)) = welcomesShown (snd w)"
  using assms
proof (induction es arbitrary: w)
  case Nil
  show ?case by simp
next
  case (Cons e es)
  have "globalState (fst (step e w)) ''swan.hasShownWelcome'' = Some True"
    using run_flag_stays [OF Cons.prems, of "[e]"] by simp
  from Cons.IH [OF this] step_welcomesShown [OF Cons.prems, of e] show ?case
    by simp
qed

text \<open>Status-bar items are only ever added at the end.\<close>

lemma step_statusBarItems:
  "prefix (statusBarItems (snd w)) (statusBarItems (snd (step e w)))"
  by (cases w; cases e; simp add: step_fields activate_closed)

lemma run_statusBarItems:
  "prefix (statusBarItems (snd w)) (statusBarItems (snd (run es w)))"
proof (induction es arbitrary: w)
  case Nil
  show ?case by simp
next
  case (Cons e es)
  from step_statusBarItems [of w e] Cons.IH [of "step e w"] show ?case
    by (auto intro: prefix_order.trans)
qed

lemma run_keeps_item:
  assumes "i < length (statusBarItems (snd w))"
  shows "statusBarItems (snd (run es w)) ! i = statusBarItems (snd w) ! i"
proof -
  from run_statusBarItems [of w es] obtain zs
    where "statusBarItems (snd (run es w)) = statusBarItems (snd w) @ zs"
    by (auto simp: prefix_def)
  with assms show ?thesis
    by (simp add: nth_append)
qed

subsection \<open>The claims\<close>

text \<open>
  C1. Activation shows the welcome notification exactly when the persisted flag
  \<open>swan.hasShownWelcome\<close> is not true on entry (false or absent), and in every case the
  flag is true when \<open>activate\<close> returns: it is written before the user has answered, so
  the answer (an item or a dismissal) cannot matter. After one activation, along every
  list of later events (activations, deactivations, commands, answers, configuration
  changes) the flag stays true and the number of welcome notifications shown does not
  grow; a further activation shows no message at all.
\<close>

theorem welcome_shown_once:
  "informationMessages (snd (activate c h)) =
     informationMessages h @
       (if globalState c ''swan.hasShownWelcome'' = Some True then []
        else [welcomeNotification])
   \<and> globalState (fst (activate c h)) ''swan.hasShownWelcome'' = Some True
   \<and> globalState (fst (run es (activate c h))) ''swan.hasShownWelcome'' = Some True
   \<and> welcomesShown (snd (run es (activate c h))) = welcomesShown (snd (activate c h))
   \<and> informationMessages (snd (step (Activate subs) (run es (activate c h)))) =
       informationMessages (snd (run es (activate c h)))"
proof -
  let ?w = "run es (activate c h)"
  have flag: "globalState (fst ?w) ''swan.hasShownWelcome'' = Some True"
    by (rule run_flag_stays) (rule activate_globalState_flag)
  have "informationMessages (snd (step (Activate subs) ?w)) = informationMessages (snd ?w)"
    using flag by (cases ?w) (simp add: activate_informationMessages)
  moreover have "welcomesShown (snd ?w) = welcomesShown (snd (activate c h))"
    by (rule run_welcomesShown) (rule activate_globalState_flag)
  ultimately show ?thesis
    using flag by (simp add: activate_informationMessages activate_globalState_flag)
qed

text \<open>
  A fresh installation: the first activation shows the welcome notification; the user
  picks "Create Project" and names the project; after two more activate/deactivate
  cycles the notification has still been shown once.
\<close>

theorem welcome_shown_once_witness:
  "informationMessages (snd (activate freshContext emptyHost)) = [welcomeNotification]
   \<and> welcomesShown (snd (run
        [WelcomeAnswered (Some ''Create Project''), InputBoxAnswered (Some ''demo''),
         Deactivate, Activate [], WelcomeAnswered None, Deactivate, Activate []]
        (activate freshContext emptyHost))) = 1"
  using welcome_shown_once [of freshContext emptyHost
      "[WelcomeAnswered (Some ''Create Project''), InputBoxAnswered (Some ''demo''),
        Deactivate, Activate [], WelcomeAnswered None, Deactivate, Activate []]" "[]"]
  by (simp add: freshContext_def emptyHost_def welcomesShown_def)

text \<open>
  C2. One invocation of the create-project command. With a non-empty project name:
  exactly one terminal is added and the terminals that existed are untouched, the new
  terminal has received exactly one text, that text contains the name, the terminal has
  been revealed, and exactly one information message, the confirmation, is added. When
  the user cancels (no value) or gives the empty string: no terminal and no message is
  added, and the invocation did nothing beyond opening the input box.
\<close>

theorem createProject_counts:
  "(n \<noteq> [] \<longrightarrow>
      length (terminals (createProject_handler (Some n) h)) = length (terminals h) + 1
    \<and> take (length (terminals h)) (terminals (createProject_handler (Some n) h)) = terminals h
    \<and> length (sentTexts (last (terminals (createProject_handler (Some n) h)))) = 1
    \<and> sublist n (hd (sentTexts (last (terminals (createProject_handler (Some n) h)))))
    \<and> terminalShown (last (terminals (createProject_handler (Some n) h)))
    \<and> length (informationMessages (createProject_handler (Some n) h)) =
        length (informationMessages h) + 1
    \<and> last (informationMessages (createProject_handler (Some n) h)) =
        (''Creating Swan project: '' @ n, []))
   \<and> (answer = None \<or> answer = Some [] \<longrightarrow>
        terminals (createProject_handler answer h) = terminals h
      \<and> informationMessages (createProject_handler answer h) = informationMessages h
      \<and> createProject_handler answer h = createProject_prompt h)"
proof (intro conjI impI)
  assume n: "n \<noteq> []"
  note st = createProject_handler_def createProject_resume_named [OF n]
    createProject_prompt_fields
  show "length (terminals (createProject_handler (Some n) h)) = length (terminals h) + 1"
    by (simp add: st)
  show "take (length (terminals h)) (terminals (createProject_handler (Some n) h)) = terminals h"
    by (simp add: st)
  show "length (sentTexts (last (terminals (createProject_handler (Some n) h)))) = 1"
    by (simp add: st)
  show "sublist n (hd (sentTexts (last (terminals (createProject_handler (Some n) h)))))"
    by (simp add: st del: append.simps)
  show "terminalShown (last (terminals (createProject_handler (Some n) h)))"
    by (simp add: st)
  show "length (informationMessages (createProject_handler (Some n) h)) =
        length (informationMessages h) + 1"
    by (simp add: st)
  show "last (informationMessages (createProject_handler (Some n) h)) =
        (''Creating Swan project: '' @ n, [])"
    by (simp add: st)
next
  assume a: "answer = None \<or> answer = Some []"
  then have r: "createProject_resume answer h' = h'" for h'
    by (auto simp: createProject_resume_nothing)
  show "terminals (createProject_handler answer h) = terminals h"
    by (simp add: createProject_handler_def r createProject_prompt_fields)
  show "informationMessages (createProject_handler answer h) = informationMessages h"
    by (simp add: createProject_handler_def r createProject_prompt_fields)
  show "createProject_handler answer h = createProject_prompt h"
    by (simp add: createProject_handler_def r)
qed

text \<open>The name \<open>my-app\<close> on an empty host, and a cancelled prompt.\<close>

theorem createProject_counts_witness:
  "''my-app'' \<noteq> []
   \<and> length (terminals (createProject_handler (Some ''my-app'') emptyHost)) = 1
   \<and> sublist ''my-app''
        (hd (sentTexts (last (terminals (createProject_handler (Some ''my-app'') emptyHost)))))
   \<and> length (informationMessages (createProject_handler (Some ''my-app'') emptyHost)) = 1
   \<and> terminals (createProject_handler None emptyHost) = []
   \<and> informationMessages (createProject_handler None emptyHost) = []"
  using createProject_counts [of "''my-app''" emptyHost None]
  by (simp add: emptyHost_def createProject_prompt_fields)

text \<open>
  C3. The persisted flag is monotone. One step of the extension, whatever the event,
  leaves the store as it was or writes \<open>true\<close> to \<open>swan.hasShownWelcome\<close>: no other value
  and no other key is ever written. So once the flag is true it is true after every list
  of events, and no welcome notification is shown along the way. Writing \<open>true\<close> twice
  gives the same store as writing it once, and an activation after that shows no message.
\<close>

theorem flag_only_set_true:
  "(globalState (fst (step e w)) = globalState (fst w) \<or>
    globalState (fst (step e w)) = (globalState (fst w))(''swan.hasShownWelcome'' \<mapsto> True))
   \<and> (globalState (fst w) ''swan.hasShownWelcome'' = Some True \<longrightarrow>
        globalState (fst (run es w)) ''swan.hasShownWelcome'' = Some True
      \<and> welcomesShown (snd (run es w)) = welcomesShown (snd w))
   \<and> globalState_update_key ''swan.hasShownWelcome'' True
        (globalState_update_key ''swan.hasShownWelcome'' True c) =
      globalState_update_key ''swan.hasShownWelcome'' True c
   \<and> informationMessages (snd (activate
        (globalState_update_key ''swan.hasShownWelcome'' True
          (globalState_update_key ''swan.hasShownWelcome'' True c)) h)) = informationMessages h"
proof (intro conjI impI)
  show "globalState (fst (step e w)) = globalState (fst w) \<or>
    globalState (fst (step e w)) = (globalState (fst w))(''swan.hasShownWelcome'' \<mapsto> True)"
    by (rule step_globalState)
next
  assume "globalState (fst w) ''swan.hasShownWelcome'' = Some True"
  then show "globalState (fst (run es w)) ''swan.hasShownWelcome'' = Some True"
    and "welcomesShown (snd (run es w)) = welcomesShown (snd w)"
    by (rule run_flag_stays, rule run_welcomesShown)
next
  show "globalState_update_key ''swan.hasShownWelcome'' True
        (globalState_update_key ''swan.hasShownWelcome'' True c) =
      globalState_update_key ''swan.hasShownWelcome'' True c"
    by (simp add: globalState_update_key_def)
next
  show "informationMessages (snd (activate
        (globalState_update_key ''swan.hasShownWelcome'' True
          (globalState_update_key ''swan.hasShownWelcome'' True c)) h)) = informationMessages h"
    by (simp add: activate_informationMessages globalState_update_key_def)
qed

text \<open>
  An installation whose flag is set, taken through a deactivation, an activation, an
  answer to a welcome message, a create-project command that is cancelled, and a
  deactivation.
\<close>

theorem flag_only_set_true_witness:
  "globalState (fst (globalState_update_key ''swan.hasShownWelcome'' True freshContext, emptyHost))
      ''swan.hasShownWelcome'' = Some True
   \<and> globalState (fst (run
        [Deactivate, Activate [], WelcomeAnswered (Some ''Open Docs''),
         CommandInvoked ''swan.createProject'', InputBoxAnswered None, Deactivate]
        (globalState_update_key ''swan.hasShownWelcome'' True freshContext, emptyHost)))
      ''swan.hasShownWelcome'' = Some True
   \<and> welcomesShown (snd (run
        [Deactivate, Activate [], WelcomeAnswered (Some ''Open Docs''),
         CommandInvoked ''swan.createProject'', InputBoxAnswered None, Deactivate]
        (globalState_update_key ''swan.hasShownWelcome'' True freshContext, emptyHost))) = 0"
  using flag_only_set_true [of Deactivate
      "(globalState_update_key ''swan.hasShownWelcome'' True freshContext, emptyHost)"
      "[Deactivate, Activate [], WelcomeAnswered (Some ''Open Docs''),
        CommandInvoked ''swan.createProject'', InputBoxAnswered None, Deactivate]"
      freshContext emptyHost]
  by (simp add: globalState_update_key_def freshContext_def emptyHost_def welcomesShown_def)

text \<open>
  C4. Every invocation of the greeting command, in every prior state of the host, shows
  exactly one information message, with the fixed greeting text and no items, and has no
  other effect: every other field of the host is as before. After an activation the id
  \<open>swan.helloWorld\<close> runs this closure.
\<close>

theorem helloWorld_one_greeting:
  "helloWorld_handler h =
     h\<lparr>informationMessages := informationMessages h @ [(''Hello World from Swan!'', [])]\<rparr>
   \<and> length (informationMessages (helloWorld_handler h)) = length (informationMessages h) + 1
   \<and> executeCommand ''swan.helloWorld'' (snd (activate c h')) =
       helloWorld_handler (snd (activate c h'))"
  by (simp add: helloWorld_handler_def showInformationMessage_def executeCommand_def
      invoke_def activate_closed)

text \<open>
  C5. Every invocation of the docs command requests exactly one external open, of the
  fixed documentation URL, and leaves every other field of the host as before. After an
  activation the id \<open>swan.openDocs\<close> runs this closure.
\<close>

theorem openDocs_one_external_open:
  "openDocs_handler h =
     h\<lparr>externalUris := externalUris h @ [Uri ''https://your-swan-docs-url.com'']\<rparr>
   \<and> length (externalUris (openDocs_handler h)) = length (externalUris h) + 1
   \<and> executeCommand ''swan.openDocs'' (snd (activate c h')) =
       openDocs_handler (snd (activate c h'))"
  by (simp add: openDocs_handler_def openExternal_def Uri_parse_def executeCommand_def
      invoke_def activate_closed)

text \<open>
  C6. One delivery of a configuration-change event to the listener: when the event does
  not affect the section \<open>swan\<close> the host is unchanged, so no line is logged; when it does,
  exactly one line is appended to the console, the fixed prefix followed by the value that
  \<open>swan.logLevel\<close> has in the host at that moment, and no other field changes.
\<close>

theorem logLevel_listener_trace:
  "logLevel_listener ev h =
     (if affectsConfiguration ev ''swan''
      then h\<lparr>console := console h @
             [''Swan log level changed to: '' @ template (configuration h ''swan'' ''logLevel'')]\<rparr>
      else h)
   \<and> length (console (logLevel_listener ev h)) =
       length (console h) + (if affectsConfiguration ev ''swan'' then 1 else 0)
   \<and> sublist (template (configuration h ''swan'' ''logLevel''))
       (''Swan log level changed to: '' @ template (configuration h ''swan'' ''logLevel''))
   \<and> template (Some v) = v"
proof -
  have "sublist t (''Swan log level changed to: '' @ t)" for t :: string
    by (rule sublist_append_leftI)
  moreover have "template (Some v) = v"
    by (simp add: template_def)
  ultimately show ?thesis
    by (simp add: logLevel_listener_def getConfiguration_get_def console_log_def
        del: append.simps)
qed

text \<open>
  C7. What \<open>activate\<close> appends to the context's disposal list is exactly the handles of
  the three command registrations and of the status-bar item it has just created, in
  that order; on a list that is empty on entry these four are the whole list. The
  disposable that \<open>onDidChangeConfiguration\<close> returns is dropped: no event subscription is
  in the list, although the listener has been registered with the host.
\<close>

theorem activate_disposal_list:
  "subscriptions (fst (activate c h)) =
     subscriptions c @
       [CommandRegistration ''swan.helloWorld'', CommandRegistration ''swan.openDocs'',
        CommandRegistration ''swan.createProject'', StatusBarHandle (length (statusBarItems h))]
   \<and> subscriptions (fst (activate (c\<lparr>subscriptions := []\<rparr>) h)) =
       [CommandRegistration ''swan.helloWorld'', CommandRegistration ''swan.openDocs'',
        CommandRegistration ''swan.createProject'', StatusBarHandle (length (statusBarItems h))]
   \<and> ListenerSubscription k \<notin> set (subscriptions (fst (activate (c\<lparr>subscriptions := []\<rparr>) h)))
   \<and> commands (snd (activate c h)) ''swan.helloWorld'' = Some HelloWorld
   \<and> commands (snd (activate c h)) ''swan.openDocs'' = Some OpenDocs
   \<and> commands (snd (activate c h)) ''swan.createProject'' = Some CreateProject
   \<and> length (statusBarItems (snd (activate c h))) = Suc (length (statusBarItems h))
   \<and> configurationListeners (snd (activate c h)) =
       configurationListeners h @ [LogLevelListener]"
  by (simp add: activate_closed)

text \<open>The disposal list of a fresh installation after its first activation.\<close>

theorem activate_disposal_list_witness:
  "subscriptions (fst (activate freshContext emptyHost)) =
     [CommandRegistration ''swan.helloWorld'', CommandRegistration ''swan.openDocs'',
      CommandRegistration ''swan.createProject'', StatusBarHandle 0]
   \<and> configurationListeners (snd (activate freshContext emptyHost)) = [LogLevelListener]"
  using activate_disposal_list [of freshContext emptyHost 0]
  by (simp add: freshContext_def emptyHost_def)

text \<open>
  C8. An activation adds exactly one status-bar item and touches none that existed. When
  \<open>activate\<close> returns the item is right-aligned with priority 100, carries the label and
  the tooltip of the source, is bound to \<open>swan.helloWorld\<close> (the id under which the
  greeting closure is registered) and is visible. Along every list of later events the
  item, found at the same index, has exactly these fields: nothing the extension runs
  changes or hides it.
\<close>

theorem statusBarItem_created_once:
  "statusBarItems (snd (activate c h)) =
     statusBarItems h @
       [\<lparr>itemAlignment = Right, itemPriority = 100, itemText = ''$(rocket) Swan'',
         itemTooltip = Some ''Swan Development Tools'',
         itemCommand = Some ''swan.helloWorld'', itemVisible = True\<rparr>]
   \<and> commands (snd (activate c h)) ''swan.helloWorld'' = Some HelloWorld
   \<and> statusBarItems (snd (run es (activate c h))) ! length (statusBarItems h) =
       \<lparr>itemAlignment = Right, itemPriority = 100, itemText = ''$(rocket) Swan'',
        itemTooltip = Some ''Swan Development Tools'',
        itemCommand = Some ''swan.helloWorld'', itemVisible = True\<rparr>"
proof -
  have "statusBarItems (snd (run es (activate c h))) ! length (statusBarItems h) =
      statusBarItems (snd (activate c h)) ! length (statusBarItems h)"
    by (rule run_keeps_item) (simp add: activate_closed)
  then show ?thesis
    by (simp add: activate_closed)
qed

text \<open>
  The item of a first activation after the greeting command, a configuration change, a
  deactivation and a second activation.
\<close>

theorem statusBarItem_created_once_witness:
  "statusBarItems (snd (run
      [CommandInvoked ''swan.helloWorld'',
       ConfigurationChanged \<lparr>affectsConfiguration = (\<lambda>s. s = ''swan'')\<rparr>,
       Deactivate, Activate []]
      (activate freshContext emptyHost))) ! 0 =
     \<lparr>itemAlignment = Right, itemPriority = 100, itemText = ''$(rocket) Swan'',
      itemTooltip = Some ''Swan Development Tools'',
      itemCommand = Some ''swan.helloWorld'', itemVisible = True\<rparr>"
  using statusBarItem_created_once [of freshContext emptyHost
      "[CommandInvoked ''swan.helloWorld'',
        ConfigurationChanged \<lparr>affectsConfiguration = (\<lambda>s. s = ''swan'')\<rparr>,
        Deactivate, Activate []]"]
  by (simp add: emptyHost_def)

text \<open>
  C9. \<open>deactivate()\<close> takes no argument (the model passes only the host, for the console),
  appends exactly one line to the console and changes no other field of the host: no
  registration, terminal, status-bar item, message or listener is created or removed. As
  a step of the installation it leaves the context, and so the persistent store and the
  disposal list, as they were.
\<close>

theorem deactivate_only_logs:
  "deactivate h = h\<lparr>console := console h @ [''Swan VS Code Extension is now deactivated'']\<rparr>
   \<and> length (console (deactivate h)) = length (console h) + 1
   \<and> terminals (deactivate h) = terminals h
   \<and> statusBarItems (deactivate h) = statusBarItems h
   \<and> commands (deactivate h) = commands h
   \<and> configurationListeners (deactivate h) = configurationListeners h
   \<and> informationMessages (deactivate h) = informationMessages h
   \<and> externalUris (deactivate h) = externalUris h
   \<and> inputBoxes (deactivate h) = inputBoxes h
   \<and> fst (step Deactivate (c, h)) = c"
  by (simp add: deactivate_def console_log_def)

text \<open>
  C10. For every non-empty project name the text sent to the new terminal is the fixed
  prefix \<open>pnpm create swan-app\<close> and a space, followed by the name exactly as given: what
  comes after the prefix is the name, character for character, whatever it contains.
  This holds for the code after the \<open>await\<close> on any host, and so for a whole invocation.
\<close>

theorem scaffold_text_verbatim:
  "n \<noteq> [] \<Longrightarrow>
     terminals (createProject_resume (Some n) h) =
       terminals h @
         [\<lparr>terminalName = ''Swan Project Setup'',
           sentTexts = [''pnpm create swan-app '' @ n], terminalShown = True\<rparr>]
   \<and> sentTexts (last (terminals (createProject_handler (Some n) h))) =
       [''pnpm create swan-app '' @ n]
   \<and> drop (length ''pnpm create swan-app '')
        (hd (sentTexts (last (terminals (createProject_handler (Some n) h))))) = n"
  by (simp add: createProject_handler_def createProject_resume_named
      createProject_prompt_fields del: append.simps)

text \<open>A name with spaces around it and shell metacharacters in it.\<close>

theorem scaffold_text_verbatim_witness:
  "'' my app; echo $HOME | wc && ls '' \<noteq> []
   \<and> sentTexts (last (terminals
        (createProject_handler (Some '' my app; echo $HOME | wc && ls '') emptyHost))) =
       [''pnpm create swan-app  my app; echo $HOME | wc && ls '']"
  using scaffold_text_verbatim [of "'' my app; echo $HOME | wc && ls ''" emptyHost]
  by simp

end
